theory Spec2Isabelle
  imports Main
begin

section \<open>Data model of \<open>src/react/components/YourGPTProvider.tsx\<close>\<close>

text \<open>
  \<open>WidgetState\<close> is the value object mirrored from the widget; the provider only stores and
  hands on whole snapshots, so the two counters are plain integers.
\<close>

record WidgetState =
  isOpen :: bool
  isVisible :: bool
  isConnected :: bool
  isLoaded :: bool
  messageCount :: int
  connectionRetries :: int

text \<open>
  \<open>YourGPTError\<close> is imported from \<open>../../types\<close>; the provider only constructs it from a
  message string and tests \<open>instanceof\<close>. A thrown JavaScript value is therefore either an
  instance of \<open>YourGPTError\<close> or some other value, of which the provider uses nothing but
  its string coercion \<open>String(err)\<close>. The coercion returns a string for most values and
  itself throws for the rest (an object without prototype, an object whose \<open>toString\<close>
  throws): these are \<open>ThrownUncoercible\<close>.
\<close>

datatype YourGPTError = YourGPTError (message: string)

datatype thrown = ThrownYourGPTError YourGPTError | ThrownOther (coerced: string) | ThrownUncoercible

text \<open>References (object identities) of SDK instances, configuration objects and functions.\<close>

type_synonym sdk_ref = nat
type_synonym config_ref = nat
type_synonym listener_id = nat

text \<open>
  A host callback is a function object: its identity (compared by the dependency array) and
  what a call does as far as the provider can see, namely return (\<open>None\<close>) or throw.
\<close>

datatype 'a callback = Callback (ref: nat) (run: "'a \<Rightarrow> thrown option")

record YourGPTContextValue =
  sdk :: "sdk_ref option"
  isInitialized :: bool
  isLoading :: bool
  error :: "YourGPTError option"
  state :: WidgetState

text \<open>The six \<open>useState\<close> cells of the provider: the context value's five plus \<open>isBrowser\<close>.\<close>

record provider_state = YourGPTContextValue +
  isBrowser :: bool

record YourGPTProviderProps =
  config :: config_ref
  onError :: "YourGPTError callback option"
  onInitialized :: "sdk_ref callback option"

section \<open>The hook \<open>useYourGPT\<close>\<close>

text \<open>
  \<open>useContext(YourGPTContext)\<close> yields \<open>null\<close> (the default of \<open>createContext\<close>) outside a
  provider and the provider's value object inside one; the thrown error is the left summand.
\<close>

definition useYourGPT :: "YourGPTContextValue option \<Rightarrow> YourGPTError + YourGPTContextValue" where
  "useYourGPT context =
     (case context of
        None \<Rightarrow> Inl (YourGPTError ''useYourGPT must be used within a YourGPTProvider'')
      | Some c \<Rightarrow> Inr c)"

section \<open>The action registry\<close>

text \<open>
  Modelled from the spec: the hook \<open>useAIActions\<close> with \<open>registerAction\<close> and
  \<open>unregisterAction\<close> is missing from the sources (only the guide calls it). The spec
  describes it as a mapping-keyed dispatch table from action names to handlers.
\<close>

type_synonym 'h registry = "string \<rightharpoonup> 'h"

definition empty_registry :: "'h registry" where
  "empty_registry = Map.empty"

text \<open>
  Modelled from the spec: \<open>registerAction(name, handler)\<close> of the missing hook
  \<open>useAIActions\<close> stores the handler under the name; \<open>unregisterAction(name)\<close>
  removes the entry of that name.
\<close>

definition registerAction :: "string \<Rightarrow> 'h \<Rightarrow> 'h registry \<Rightarrow> 'h registry" where
  "registerAction name handler r = r(name \<mapsto> handler)"

definition unregisterAction :: "string \<Rightarrow> 'h registry \<Rightarrow> 'h registry" where
  "unregisterAction name r = r(name := None)"

section \<open>The SDK instance\<close>

text \<open>
  Modelled from the spec: the class \<open>YourGPTSDK\<close> and \<open>YourGPT.init\<close> of
  \<open>../../core/YourGPT\<close> are missing from the sources. The spec gives the shim
  \<open>onStateChange(handle, callback) -> unsubscribe\<close> and a state snapshot owned by the
  widget: \<open>on("stateChange", listener)\<close> adds the listener and returns a function removing
  it, \<open>getState()\<close> returns the current snapshot, and an emitted state change is passed to
  every listener attached at that time. The field \<open>unsubscribeStateChange\<close> is the
  property \<open>_unsubscribeStateChange\<close> that the provider itself writes on the instance
  (\<open>None\<close> while it is undefined, otherwise the function removing that listener).
\<close>

record sdk_instance =
  listeners :: "listener_id list"
  widgetState :: WidgetState
  unsubscribeStateChange :: "listener_id option"

text \<open>Calls that leave the provider, in the order they are made.\<close>

datatype call =
    CallInit config_ref
  | CallOn sdk_ref listener_id
  | CallUnsubscribe sdk_ref listener_id
  | CallOnInitialized nat sdk_ref
  | CallOnError nat YourGPTError

section \<open>The provider instance under React\<close>

text \<open>
  One render of \<open>YourGPTProvider\<close> binds its props and the current values of the state
  cells; the functions created in that render (the effect, \<open>initializeSDK\<close>, the cleanup)
  close over these bindings. Only \<open>isBrowser\<close> and \<open>sdk\<close> are read by them.
\<close>

record closure =
  props :: YourGPTProviderProps
  isBrowser_r :: bool
  sdk_r :: "sdk_ref option"

text \<open>The dependency array \<open>[config, onError, onInitialized, isBrowser]\<close>, compared by identity.\<close>

type_synonym deps = "config_ref \<times> nat option \<times> nat option \<times> bool"

text \<open>
  What the last run of the second effect returned: nothing (the early \<open>return\<close>), or the
  cleanup function, which closes over the \<open>sdk\<close> of the render that created it.
\<close>

datatype cleanup = NoCleanup | Cleanup "sdk_ref option"

record world =
  hooks :: provider_state
  unmounted :: bool
  rendered :: "closure option"
  mountEffectRan :: bool
  effectDeps :: "deps option"
  effectCleanup :: cleanup
  pending :: "nat \<rightharpoonup> YourGPTProviderProps"
  nextRun :: nat
  sdks :: "sdk_ref \<Rightarrow> sdk_instance"
  nextListener :: nat
  calls :: "call list"

text \<open>The object built at lines 106-112 and passed to \<open>YourGPTContext.Provider\<close>.\<close>

definition contextValue :: "world \<Rightarrow> YourGPTContextValue" where
  "contextValue w =
     \<lparr> sdk = sdk (hooks w), isInitialized = isInitialized (hooks w),
       isLoading = isLoading (hooks w), error = error (hooks w), state = state (hooks w) \<rparr>"

text \<open>
  The setters returned by \<open>useState\<close>. React drops a state update of a component that has
  been unmounted.
\<close>

definition set_cell :: "(provider_state \<Rightarrow> provider_state) \<Rightarrow> world \<Rightarrow> world" where
  "set_cell f w = (if unmounted w then w else w\<lparr>hooks := f (hooks w)\<rparr>)"

definition setIsBrowser :: "bool \<Rightarrow> world \<Rightarrow> world" where
  "setIsBrowser b = set_cell (\<lambda>h. h\<lparr>isBrowser := b\<rparr>)"

definition setSdk :: "sdk_ref option \<Rightarrow> world \<Rightarrow> world" where
  "setSdk x = set_cell (\<lambda>h. h\<lparr>sdk := x\<rparr>)"

definition setIsInitialized :: "bool \<Rightarrow> world \<Rightarrow> world" where
  "setIsInitialized b = set_cell (\<lambda>h. h\<lparr>isInitialized := b\<rparr>)"

definition setIsLoading :: "bool \<Rightarrow> world \<Rightarrow> world" where
  "setIsLoading b = set_cell (\<lambda>h. h\<lparr>isLoading := b\<rparr>)"

definition setError :: "YourGPTError option \<Rightarrow> world \<Rightarrow> world" where
  "setError e = set_cell (\<lambda>h. h\<lparr>error := e\<rparr>)"

definition setState :: "WidgetState \<Rightarrow> world \<Rightarrow> world" where
  "setState v = set_cell (\<lambda>h. h\<lparr>state := v\<rparr>)"

subsection \<open>The SDK operations the provider calls\<close>

text \<open>
  Modelled from the spec: the methods \<open>on\<close> and \<open>getState\<close> of the missing class
  \<open>YourGPTSDK\<close>, and the function \<open>on\<close> returns (\<open>unsubscribe\<close>), which removes
  the listener it was created for.
\<close>

definition sdk_on :: "sdk_ref \<Rightarrow> world \<Rightarrow> world" where
  "sdk_on s w =
     w\<lparr> sdks := (sdks w)(s := (sdks w s)\<lparr>listeners := listeners (sdks w s) @ [nextListener w]\<rparr>),
        nextListener := Suc (nextListener w),
        calls := calls w @ [CallOn s (nextListener w)] \<rparr>"

definition getState :: "sdk_ref \<Rightarrow> world \<Rightarrow> WidgetState" where
  "getState s w = widgetState (sdks w s)"

definition unsubscribe :: "sdk_ref \<Rightarrow> listener_id \<Rightarrow> world \<Rightarrow> world" where
  "unsubscribe s l w =
     w\<lparr> sdks := (sdks w)(s := (sdks w s)\<lparr>listeners := removeAll l (listeners (sdks w s))\<rparr>),
        calls := calls w @ [CallUnsubscribe s l] \<rparr>"

text \<open>
  Modelled from the spec: the widget emits \<open>stateChange\<close> on an instance, which takes
  the payload as its current snapshot and calls every attached listener with it. Each
  listener the provider attaches is \<open>(newState) => setState(newState)\<close>.
\<close>

definition emit_stateChange :: "sdk_ref \<Rightarrow> WidgetState \<Rightarrow> world \<Rightarrow> world" where
  "emit_stateChange s v w =
     (let w1 = w\<lparr>sdks := (sdks w)(s := (sdks w s)\<lparr>widgetState := v\<rparr>)\<rparr>
      in foldl (\<lambda>w' l. setState v w') w1 (listeners (sdks w1 s)))"

subsection \<open>\<open>initializeSDK\<close>\<close>

text \<open>
  Line 83: \<open>err instanceof YourGPTError ? err : new YourGPTError(String(err))\<close>. The result
  is \<open>None\<close> when evaluating the expression throws, which is when \<open>String(err)\<close> does.
\<close>

fun toYourGPTError :: "thrown \<Rightarrow> YourGPTError option" where
  "toYourGPTError (ThrownYourGPTError e) = Some e"
| "toYourGPTError (ThrownOther s) = Some (YourGPTError s)"
| "toYourGPTError ThrownUncoercible = None"

text \<open>
  Lines 61-65, up to the \<open>await\<close>: the two setters, then the call of \<open>YourGPT.init(config)\<close>,
  whose promise stays pending together with the props this run closed over.
\<close>

definition initializeSDK_begin :: "YourGPTProviderProps \<Rightarrow> world \<Rightarrow> world" where
  "initializeSDK_begin p w =
     (let w1 = setIsLoading True w;
          w2 = setError None w1
      in w2\<lparr> calls := calls w2 @ [CallInit (config p)],
              pending := (pending w2)(nextRun w2 \<mapsto> p),
              nextRun := Suc (nextRun w2) \<rparr>)"

text \<open>
  Lines 68-81, the rest of the \<open>try\<close> block once the promise has resolved with an instance.
  The result says whether the block completed or threw (only \<open>onInitialized\<close> can).
\<close>

definition try_rest :: "YourGPTProviderProps \<Rightarrow> sdk_ref \<Rightarrow> world \<Rightarrow> thrown option \<times> world" where
  "try_rest p sdkInstance w =
     (let l = nextListener w;
          w1 = sdk_on sdkInstance w;
          w2 = setSdk (Some sdkInstance) w1;
          w3 = setIsInitialized True w2;
          w4 = setState (getState sdkInstance w3) w3;
          w5 = w4\<lparr>sdks := (sdks w4)(sdkInstance :=
                 (sdks w4 sdkInstance)\<lparr>unsubscribeStateChange := Some l\<rparr>)\<rparr>
      in case onInitialized p of
           None \<Rightarrow> (None, w5)
         | Some cb \<Rightarrow> (run cb sdkInstance, w5\<lparr>calls := calls w5 @ [CallOnInitialized (ref cb) sdkInstance]\<rparr>))"

text \<open>
  Lines 82-88. When line 83 throws, the rest of the \<open>catch\<close> block is skipped. When it
  or \<open>onError\<close> throws, the \<open>finally\<close> block still runs and the exception leaves
  \<open>initializeSDK\<close> as a rejection nobody awaits, so both outcomes of the call of
  \<open>onError\<close> give the same world.
\<close>

definition catch_block :: "YourGPTProviderProps \<Rightarrow> thrown \<Rightarrow> world \<Rightarrow> world" where
  "catch_block p err w =
     (case toYourGPTError err of
        None \<Rightarrow> w
      | Some sdkError \<Rightarrow>
          (let w1 = setError (Some sdkError) w
           in case onError p of
                None \<Rightarrow> w1
              | Some cb \<Rightarrow> w1\<lparr>calls := calls w1 @ [CallOnError (ref cb) sdkError]\<rparr>))"

definition finally_block :: "world \<Rightarrow> world" where
  "finally_block w = setIsLoading False w"

definition initializeSDK_resolved :: "YourGPTProviderProps \<Rightarrow> sdk_ref \<Rightarrow> world \<Rightarrow> world" where
  "initializeSDK_resolved p sdkInstance w =
     (case try_rest p sdkInstance w of
        (None, w1) \<Rightarrow> finally_block w1
      | (Some err, w1) \<Rightarrow> finally_block (catch_block p err w1))"

definition initializeSDK_rejected :: "YourGPTProviderProps \<Rightarrow> thrown \<Rightarrow> world \<Rightarrow> world" where
  "initializeSDK_rejected p err w = finally_block (catch_block p err w)"

subsection \<open>The two effects\<close>

text \<open>Lines 52-54, dependency array \<open>[]\<close>: runs once, in the first commit.\<close>

definition browser_effect :: "world \<Rightarrow> world" where
  "browser_effect w = setIsBrowser True w"

definition deps_of :: "closure \<Rightarrow> deps" where
  "deps_of c =
     (config (props c), map_option ref (onError (props c)),
      map_option ref (onInitialized (props c)), isBrowser_r c)"

text \<open>Lines 96-103, with the \<open>sdk\<close> the cleanup function closed over.\<close>

definition run_cleanup :: "world \<Rightarrow> world" where
  "run_cleanup w =
     (case effectCleanup w of
        NoCleanup \<Rightarrow> w
      | Cleanup None \<Rightarrow> w
      | Cleanup (Some s) \<Rightarrow>
          (case unsubscribeStateChange (sdks w s) of
             None \<Rightarrow> w
           | Some l \<Rightarrow> unsubscribe s l w))"

text \<open>Lines 56-103, the body of the second effect, in the closure of the render \<open>c\<close>.\<close>

definition init_effect :: "closure \<Rightarrow> world \<Rightarrow> world" where
  "init_effect c w =
     (if \<not> isBrowser_r c then w\<lparr>effectCleanup := NoCleanup\<rparr>
      else (initializeSDK_begin (props c) w)\<lparr>effectCleanup := Cleanup (sdk_r c)\<rparr>)"

text \<open>
  React commits the latest render: an effect runs when it has not run yet or a dependency
  differs from the last run's; before it runs again, the cleanup of its last run is called.
\<close>

definition commit :: "world \<Rightarrow> world" where
  "commit w =
     (case rendered w of
        None \<Rightarrow> w
      | Some c \<Rightarrow>
          if unmounted w then w
          else
            let w1 = (if mountEffectRan w then w else (browser_effect w)\<lparr>mountEffectRan := True\<rparr>)
            in if effectDeps w1 = Some (deps_of c) then w1
               else (init_effect c (run_cleanup w1))\<lparr>effectDeps := Some (deps_of c)\<rparr>)"

subsection \<open>Events and executions\<close>

text \<open>
  What can happen to one provider instance: the parent renders it with some props, React
  commits the latest render (in a browser only: a server render never commits), a pending
  \<open>YourGPT.init\<close> promise settles, the widget emits a state change, the scope unmounts.
\<close>

datatype event =
    Render YourGPTProviderProps
  | Commit
  | InitResolved nat sdk_ref
  | InitRejected nat thrown
  | StateChange sdk_ref WidgetState
  | Unmount

fun step :: "event \<Rightarrow> world \<Rightarrow> world" where
  "step (Render p) w =
     (if unmounted w then w
      else w\<lparr>rendered := Some \<lparr>props = p, isBrowser_r = isBrowser (hooks w), sdk_r = sdk (hooks w)\<rparr>\<rparr>)"
| "step Commit w = commit w"
| "step (InitResolved k sdkInstance) w =
     (case pending w k of
        None \<Rightarrow> w
      | Some p \<Rightarrow> initializeSDK_resolved p sdkInstance (w\<lparr>pending := (pending w)(k := None)\<rparr>))"
| "step (InitRejected k err) w =
     (case pending w k of
        None \<Rightarrow> w
      | Some p \<Rightarrow> initializeSDK_rejected p err (w\<lparr>pending := (pending w)(k := None)\<rparr>))"
| "step (StateChange s v) w = emit_stateChange s v w"
| "step Unmount w = (if unmounted w then w else (run_cleanup w)\<lparr>unmounted := True\<rparr>)"

fun exec :: "event list \<Rightarrow> world \<Rightarrow> world" where
  "exec [] w = w"
| "exec (e # es) w = exec es (step e w)"

text \<open>Lines 37-49: the initial values of the state cells.\<close>

definition defaultState :: WidgetState where
  "defaultState =
     \<lparr> isOpen = False, isVisible = True, isConnected = False, isLoaded = False,
       messageCount = 0, connectionRetries = 0 \<rparr>"

definition initial_hooks :: provider_state where
  "initial_hooks =
     \<lparr> sdk = None, isInitialized = False, isLoading = False, error = None,
       state = defaultState, isBrowser = False \<rparr>"

text \<open>
  The world before the first render; \<open>g\<close> gives the snapshot each widget instance holds
  then, and no listener is attached to any.
\<close>

definition initial_world :: "(sdk_ref \<Rightarrow> WidgetState) \<Rightarrow> world" where
  "initial_world g =
     \<lparr> hooks = initial_hooks, unmounted = False, rendered = None, mountEffectRan = False,
       effectDeps = None, effectCleanup = NoCleanup, pending = Map.empty, nextRun = 0,
       sdks = (\<lambda>s. \<lparr>listeners = [], widgetState = g s, unsubscribeStateChange = None\<rparr>),
       nextListener = 0, calls = [] \<rparr>"

subsection \<open>Host callbacks and example inputs\<close>

definition returning :: "'a \<Rightarrow> thrown option" where
  "returning x = None"

definition throwing :: "thrown \<Rightarrow> 'a \<Rightarrow> thrown option" where
  "throwing err x = Some err"

text \<open>An optional callback is absent or returns normally on this argument.\<close>

definition completes :: "'a callback option \<Rightarrow> 'a \<Rightarrow> bool" where
  "completes cbo x = (case cbo of None \<Rightarrow> True | Some cb \<Rightarrow> run cb x = None)"

definition sample_props :: YourGPTProviderProps where
  "sample_props =
     \<lparr> config = 1, onError = Some (Callback 2 returning),
       onInitialized = Some (Callback 3 returning) \<rparr>"

definition changed_props :: YourGPTProviderProps where
  "changed_props =
     \<lparr> config = 4, onError = Some (Callback 2 returning),
       onInitialized = Some (Callback 3 returning) \<rparr>"

definition throwing_props :: YourGPTProviderProps where
  "throwing_props =
     \<lparr> config = 1, onError = None,
       onInitialized = Some (Callback 3 (throwing (ThrownOther ''boom''))) \<rparr>"

definition sample_widgets :: "sdk_ref \<Rightarrow> WidgetState" where
  "sample_widgets s = defaultState\<lparr>isLoaded := True, messageCount := int s\<rparr>"

definition open_state :: WidgetState where
  "open_state = defaultState\<lparr>isOpen := True, isConnected := True, messageCount := 2\<rparr>"

text \<open>
  Mounting in a browser: the first render and its commit (the first effect sets
  \<open>isBrowser\<close>, the second returns early), then the render this state update causes and
  its commit, which starts \<open>initializeSDK\<close>.
\<close>

definition mount :: "YourGPTProviderProps \<Rightarrow> event list" where
  "mount p = [Render p, Commit, Render p, Commit]"

text \<open>The example provider once mounted, and once its first \<open>YourGPT.init\<close> has resolved.\<close>

definition pending_world :: world where
  "pending_world = exec (mount sample_props) (initial_world sample_widgets)"

definition ready_world :: world where
  "ready_world = exec (mount sample_props @ [InitResolved 0 7]) (initial_world sample_widgets)"

subsection \<open>Failing runs\<close>

text \<open>
  An event makes a run of \<open>initializeSDK\<close> fail when it settles a pending
  \<open>YourGPT.init\<close> promise and control reaches the \<open>catch\<close> block: the promise rejects,
  or it resolves and \<open>onInitialized\<close> throws.
\<close>

fun run_fails :: "event \<Rightarrow> world \<Rightarrow> bool" where
  "run_fails (InitRejected k err) w = (pending w k \<noteq> None)"
| "run_fails (InitResolved k s) w =
     (case pending w k of None \<Rightarrow> False | Some p \<Rightarrow> \<not> completes (onInitialized p) s)"
| "run_fails (Render p) w = False"
| "run_fails Commit w = False"
| "run_fails (StateChange s v) w = False"
| "run_fails Unmount w = False"

fun no_run_fails :: "event list \<Rightarrow> world \<Rightarrow> bool" where
  "no_run_fails [] w = True"
| "no_run_fails (e # es) w = (\<not> run_fails e w \<and> no_run_fails es (step e w))"

subsection \<open>Invariants\<close>

text \<open>
  Everything that presupposes the first effect: the second effect having run, a call of
  \<open>YourGPT.init\<close>, a pending promise, an initialized provider.
\<close>

definition browser_inv :: "world \<Rightarrow> bool" where
  "browser_inv w \<longleftrightarrow>
     (mountEffectRan w \<longrightarrow> isBrowser (hooks w)) \<and>
     (effectDeps w \<noteq> None \<longrightarrow> mountEffectRan w) \<and>
     (isInitialized (hooks w) \<longrightarrow> isBrowser (hooks w)) \<and>
     ((\<exists>c. CallInit c \<in> set (calls w)) \<longrightarrow> isBrowser (hooks w)) \<and>
     (pending w \<noteq> Map.empty \<longrightarrow> isBrowser (hooks w))"

text \<open>
  Until the provider is initialized its state cell holds the default and, while it is
  mounted, nothing is subscribed.
\<close>

definition listener_inv :: "world \<Rightarrow> bool" where
  "listener_inv w \<longleftrightarrow>
     (\<not> isInitialized (hooks w) \<longrightarrow>
        state (hooks w) = defaultState \<and> (\<not> unmounted w \<longrightarrow> (\<forall>s. listeners (sdks w s) = [])))"

section \<open>Auxiliary facts\<close>

lemmas setter_defs = setIsBrowser_def setSdk_def setIsInitialized_def setIsLoading_def
  setError_def setState_def
lemmas sdk_defs = unsubscribe_def getState_def sdk_on_def
lemmas run_defs = initializeSDK_rejected_def initializeSDK_resolved_def finally_block_def catch_block_def
  try_rest_def initializeSDK_begin_def
lemmas effect_defs = commit_def init_effect_def run_cleanup_def deps_of_def browser_effect_def
lemmas sample_defs = pending_world_def ready_world_def sample_props_def changed_props_def throwing_props_def sample_widgets_def open_state_def
  mount_def returning_def throwing_def completes_def defaultState_def initial_world_def initial_hooks_def
lemmas eval_defs = sample_defs effect_defs run_defs sdk_defs setter_defs set_cell_def emit_stateChange_def
  contextValue_def Let_def

lemma exec_append: "exec (xs @ ys) w = exec ys (exec xs w)"
  by (induction xs arbitrary: w) simp_all

lemma exec_invariant:
  assumes "P w" and "\<And>e w. P w \<Longrightarrow> P (step e w)"
  shows "P (exec evs w)"
  using assms(1) by (induction evs arbitrary: w) (simp_all add: assms(2))

lemma set_cell_fields [simp]:
  "hooks (set_cell f w) = (if unmounted w then hooks w else f (hooks w))"
  "unmounted (set_cell f w) = unmounted w"
  "rendered (set_cell f w) = rendered w"
  "mountEffectRan (set_cell f w) = mountEffectRan w"
  "effectDeps (set_cell f w) = effectDeps w"
  "effectCleanup (set_cell f w) = effectCleanup w"
  "pending (set_cell f w) = pending w"
  "nextRun (set_cell f w) = nextRun w"
  "sdks (set_cell f w) = sdks w"
  "nextListener (set_cell f w) = nextListener w"
  "calls (set_cell f w) = calls w"
  by (simp_all add: set_cell_def)

lemma foldl_setState:
  "foldl (\<lambda>w' l. setState v w') w ls = (if ls = [] then w else setState v w)"
  by (induction ls arbitrary: w) (auto simp: setState_def set_cell_def)

lemma emit_stateChange_alt:
  "emit_stateChange s v w =
     (if listeners (sdks w s) = [] then w\<lparr>sdks := (sdks w)(s := (sdks w s)\<lparr>widgetState := v\<rparr>)\<rparr>
      else setState v (w\<lparr>sdks := (sdks w)(s := (sdks w s)\<lparr>widgetState := v\<rparr>)\<rparr>))"
  by (simp add: emit_stateChange_def foldl_setState Let_def)

lemma emit_stateChange_fields [simp]:
  "hooks (emit_stateChange s v w) =
     (if unmounted w \<or> listeners (sdks w s) = [] then hooks w else (hooks w)\<lparr>state := v\<rparr>)"
  "unmounted (emit_stateChange s v w) = unmounted w"
  "rendered (emit_stateChange s v w) = rendered w"
  "mountEffectRan (emit_stateChange s v w) = mountEffectRan w"
  "effectDeps (emit_stateChange s v w) = effectDeps w"
  "effectCleanup (emit_stateChange s v w) = effectCleanup w"
  "pending (emit_stateChange s v w) = pending w"
  "nextRun (emit_stateChange s v w) = nextRun w"
  "sdks (emit_stateChange s v w) = (sdks w)(s := (sdks w s)\<lparr>widgetState := v\<rparr>)"
  "nextListener (emit_stateChange s v w) = nextListener w"
  "calls (emit_stateChange s v w) = calls w"
  by (simp_all add: emit_stateChange_alt setState_def)

lemma run_cleanup_fields [simp]:
  "hooks (run_cleanup w) = hooks w"
  "unmounted (run_cleanup w) = unmounted w"
  "rendered (run_cleanup w) = rendered w"
  "mountEffectRan (run_cleanup w) = mountEffectRan w"
  "effectDeps (run_cleanup w) = effectDeps w"
  "effectCleanup (run_cleanup w) = effectCleanup w"
  "pending (run_cleanup w) = pending w"
  "nextRun (run_cleanup w) = nextRun w"
  "nextListener (run_cleanup w) = nextListener w"
  by (simp_all add: run_cleanup_def unsubscribe_def split: cleanup.splits option.splits)

lemma run_cleanup_listeners: "set (listeners (sdks (run_cleanup w) s)) \<subseteq> set (listeners (sdks w s))"
  by (auto simp: run_cleanup_def unsubscribe_def split: cleanup.splits option.splits)

lemma run_cleanup_calls_init: "CallInit c \<in> set (calls (run_cleanup w)) \<longleftrightarrow> CallInit c \<in> set (calls w)"
  by (auto simp: run_cleanup_def unsubscribe_def split: cleanup.splits option.splits)

lemma initializeSDK_begin_fields [simp]:
  "hooks (initializeSDK_begin p w) =
     (if unmounted w then hooks w else (hooks w)\<lparr>isLoading := True, error := None\<rparr>)"
  "unmounted (initializeSDK_begin p w) = unmounted w"
  "rendered (initializeSDK_begin p w) = rendered w"
  "mountEffectRan (initializeSDK_begin p w) = mountEffectRan w"
  "effectDeps (initializeSDK_begin p w) = effectDeps w"
  "effectCleanup (initializeSDK_begin p w) = effectCleanup w"
  "pending (initializeSDK_begin p w) = (pending w)(nextRun w \<mapsto> p)"
  "nextRun (initializeSDK_begin p w) = Suc (nextRun w)"
  "sdks (initializeSDK_begin p w) = sdks w"
  "nextListener (initializeSDK_begin p w) = nextListener w"
  "calls (initializeSDK_begin p w) = calls w @ [CallInit (config p)]"
  by (simp_all add: initializeSDK_begin_def Let_def setter_defs)

lemma catch_block_fields [simp]:
  "hooks (catch_block p err w) =
     (if unmounted w \<or> toYourGPTError err = None then hooks w
      else (hooks w)\<lparr>error := toYourGPTError err\<rparr>)"
  "unmounted (catch_block p err w) = unmounted w"
  "rendered (catch_block p err w) = rendered w"
  "mountEffectRan (catch_block p err w) = mountEffectRan w"
  "effectDeps (catch_block p err w) = effectDeps w"
  "effectCleanup (catch_block p err w) = effectCleanup w"
  "pending (catch_block p err w) = pending w"
  "nextRun (catch_block p err w) = nextRun w"
  "sdks (catch_block p err w) = sdks w"
  "nextListener (catch_block p err w) = nextListener w"
  "calls (catch_block p err w) =
     calls w @ (case toYourGPTError err of
                  None \<Rightarrow> []
                | Some sdkError \<Rightarrow>
                    (case onError p of None \<Rightarrow> [] | Some cb \<Rightarrow> [CallOnError (ref cb) sdkError]))"
  by (auto simp: catch_block_def Let_def setter_defs split: option.splits)

lemma finally_block_fields [simp]:
  "hooks (finally_block w) = (if unmounted w then hooks w else (hooks w)\<lparr>isLoading := False\<rparr>)"
  "unmounted (finally_block w) = unmounted w"
  "rendered (finally_block w) = rendered w"
  "mountEffectRan (finally_block w) = mountEffectRan w"
  "effectDeps (finally_block w) = effectDeps w"
  "effectCleanup (finally_block w) = effectCleanup w"
  "pending (finally_block w) = pending w"
  "nextRun (finally_block w) = nextRun w"
  "sdks (finally_block w) = sdks w"
  "nextListener (finally_block w) = nextListener w"
  "calls (finally_block w) = calls w"
  by (simp_all add: finally_block_def setter_defs)

lemma initializeSDK_resolved_alt:
  "initializeSDK_resolved p s w =
     (case fst (try_rest p s w) of
        None \<Rightarrow> finally_block (snd (try_rest p s w))
      | Some err \<Rightarrow> finally_block (catch_block p err (snd (try_rest p s w))))"
  by (cases "try_rest p s w") (simp add: initializeSDK_resolved_def split: option.splits)

lemma try_rest_fields [simp]:
  "fst (try_rest p s w) = (case onInitialized p of None \<Rightarrow> None | Some cb \<Rightarrow> run cb s)"
  "hooks (snd (try_rest p s w)) =
     (if unmounted w then hooks w
      else (hooks w)\<lparr>sdk := Some s, isInitialized := True, state := widgetState (sdks w s)\<rparr>)"
  "unmounted (snd (try_rest p s w)) = unmounted w"
  "rendered (snd (try_rest p s w)) = rendered w"
  "mountEffectRan (snd (try_rest p s w)) = mountEffectRan w"
  "effectDeps (snd (try_rest p s w)) = effectDeps w"
  "effectCleanup (snd (try_rest p s w)) = effectCleanup w"
  "pending (snd (try_rest p s w)) = pending w"
  "nextRun (snd (try_rest p s w)) = nextRun w"
  "sdks (snd (try_rest p s w)) =
     (sdks w)(s := (sdks w s)\<lparr>listeners := listeners (sdks w s) @ [nextListener w],
                               unsubscribeStateChange := Some (nextListener w)\<rparr>)"
  "nextListener (snd (try_rest p s w)) = Suc (nextListener w)"
  "calls (snd (try_rest p s w)) =
     calls w @ [CallOn s (nextListener w)]
       @ (case onInitialized p of None \<Rightarrow> [] | Some cb \<Rightarrow> [CallOnInitialized (ref cb) s])"
  by (simp_all add: try_rest_def Let_def setter_defs sdk_defs split: option.splits)


lemma initializeSDK_rejected_fields [simp]:
  "hooks (initializeSDK_rejected p err w) =
     (if unmounted w then hooks w
      else if toYourGPTError err = None then (hooks w)\<lparr>isLoading := False\<rparr>
      else (hooks w)\<lparr>error := toYourGPTError err, isLoading := False\<rparr>)"
  "unmounted (initializeSDK_rejected p err w) = unmounted w"
  "mountEffectRan (initializeSDK_rejected p err w) = mountEffectRan w"
  "effectDeps (initializeSDK_rejected p err w) = effectDeps w"
  "pending (initializeSDK_rejected p err w) = pending w"
  "sdks (initializeSDK_rejected p err w) = sdks w"
  "calls (initializeSDK_rejected p err w) =
     calls w @ (case toYourGPTError err of
                  None \<Rightarrow> []
                | Some sdkError \<Rightarrow>
                    (case onError p of None \<Rightarrow> [] | Some cb \<Rightarrow> [CallOnError (ref cb) sdkError]))"
  by (simp_all add: initializeSDK_rejected_def)

lemma initializeSDK_resolved_fields [simp]:
  "unmounted (initializeSDK_resolved p s w) = unmounted w"
  "mountEffectRan (initializeSDK_resolved p s w) = mountEffectRan w"
  "effectDeps (initializeSDK_resolved p s w) = effectDeps w"
  "pending (initializeSDK_resolved p s w) = pending w"
  "sdks (initializeSDK_resolved p s w) =
     (sdks w)(s := (sdks w s)\<lparr>listeners := listeners (sdks w s) @ [nextListener w],
                               unsubscribeStateChange := Some (nextListener w)\<rparr>)"
  "isBrowser (hooks (initializeSDK_resolved p s w)) = isBrowser (hooks w)"
  "isLoading (hooks (initializeSDK_resolved p s w)) = (unmounted w \<and> isLoading (hooks w))"
  "isInitialized (hooks (initializeSDK_resolved p s w)) = (unmounted w \<longrightarrow> isInitialized (hooks w))"
  "state (hooks (initializeSDK_resolved p s w)) =
     (if unmounted w then state (hooks w) else widgetState (sdks w s))"
  "unmounted w \<Longrightarrow> hooks (initializeSDK_resolved p s w) = hooks w"
  by (simp_all add: initializeSDK_resolved_alt split: option.splits)

lemma initializeSDK_resolved_error:
  "error (hooks (initializeSDK_resolved p s w)) =
     (if unmounted w then error (hooks w)
      else case onInitialized p of
             None \<Rightarrow> error (hooks w)
           | Some cb \<Rightarrow>
               (case run cb s of
                  None \<Rightarrow> error (hooks w)
                | Some err \<Rightarrow>
                    (case toYourGPTError err of None \<Rightarrow> error (hooks w) | Some sdkError \<Rightarrow> Some sdkError)))"
  by (simp add: initializeSDK_resolved_alt split: option.splits)

lemma initializeSDK_resolved_calls_init:
  "CallInit c \<in> set (calls (initializeSDK_resolved p s w)) \<longleftrightarrow> CallInit c \<in> set (calls w)"
  by (simp add: initializeSDK_resolved_alt split: option.splits)

lemma contextValue_fields [simp]:
  "sdk (contextValue w) = sdk (hooks w)"
  "isInitialized (contextValue w) = isInitialized (hooks w)"
  "isLoading (contextValue w) = isLoading (hooks w)"
  "error (contextValue w) = error (hooks w)"
  "state (contextValue w) = state (hooks w)"
  by (simp_all add: contextValue_def)

subsection \<open>Commits and reachable worlds\<close>

lemma commit_fields [simp]:
  "unmounted (commit w) = unmounted w"
  "rendered (commit w) = rendered w"
  by (simp_all add: commit_def Let_def init_effect_def browser_effect_def setter_defs split: option.splits)

lemma commit_isBrowser:
  "isBrowser (hooks (commit w)) = (isBrowser (hooks w) \<or> (\<not> unmounted w \<and> rendered w \<noteq> None \<and> \<not> mountEffectRan w))"
  by (auto simp: commit_def Let_def init_effect_def browser_effect_def setter_defs split: option.splits)

lemma commit_mountEffectRan:
  "mountEffectRan (commit w) = (mountEffectRan w \<or> (\<not> unmounted w \<and> rendered w \<noteq> None))"
  by (auto simp: commit_def Let_def init_effect_def browser_effect_def setter_defs split: option.splits)

lemma commit_isInitialized [simp]: "isInitialized (hooks (commit w)) = isInitialized (hooks w)"
  by (auto simp: commit_def Let_def init_effect_def browser_effect_def setter_defs split: option.splits)

lemma commit_state [simp]: "state (hooks (commit w)) = state (hooks w)"
  by (auto simp: commit_def Let_def init_effect_def browser_effect_def setter_defs split: option.splits)

lemma commit_listeners: "set (listeners (sdks (commit w) s)) \<subseteq> set (listeners (sdks w s))"
  using run_cleanup_listeners [of "w" s] run_cleanup_listeners [of "(browser_effect w)\<lparr>mountEffectRan := True\<rparr>" s]
  by (auto simp: commit_def Let_def init_effect_def browser_effect_def setter_defs split: option.splits)


lemma browser_inv_initial: "browser_inv (initial_world g)"
  by (simp add: browser_inv_def initial_world_def initial_hooks_def)

lemma browser_inv_commit:
  assumes "browser_inv w"
  shows "browser_inv (commit w)"
proof (cases "\<not> unmounted w \<and> rendered w \<noteq> None")
  case True
  then have b: "isBrowser (hooks (commit w))" and m: "mountEffectRan (commit w)"
    using assms by (auto simp: commit_isBrowser commit_mountEffectRan browser_inv_def)
  then show ?thesis by (simp add: browser_inv_def)
next
  case False
  then have "commit w = w" by (auto simp: commit_def split: option.splits)
  with assms show ?thesis by simp
qed

lemma browser_inv_step: "browser_inv w \<Longrightarrow> browser_inv (step e w)"
proof (cases e)
  case (Render p) then show "browser_inv w \<Longrightarrow> ?thesis" by (simp add: browser_inv_def)
next
  case Commit then show "browser_inv w \<Longrightarrow> ?thesis" by (simp add: browser_inv_commit)
next
  case (InitResolved k s) then show "browser_inv w \<Longrightarrow> ?thesis"
    by (cases "pending w k")
       (auto simp: browser_inv_def initializeSDK_resolved_calls_init)
next
  case (InitRejected k err) then show "browser_inv w \<Longrightarrow> ?thesis"
    by (cases "pending w k") (auto simp: browser_inv_def split: option.splits)
next
  case (StateChange s v) then show "browser_inv w \<Longrightarrow> ?thesis"
    by (simp add: browser_inv_def)
next
  case Unmount then show "browser_inv w \<Longrightarrow> ?thesis"
    by (simp add: browser_inv_def run_cleanup_calls_init)
qed

lemma browser_inv_reachable: "browser_inv (exec evs (initial_world g))"
  by (rule exec_invariant [OF browser_inv_initial browser_inv_step])

lemma listener_inv_initial: "listener_inv (initial_world g)"
  by (simp add: listener_inv_def initial_world_def initial_hooks_def)

lemma listener_inv_step: "listener_inv w \<Longrightarrow> listener_inv (step e w)"
proof (cases e)
  case (Render p) then show "listener_inv w \<Longrightarrow> ?thesis" by (simp add: listener_inv_def)
next
  case Commit
  show "listener_inv w \<Longrightarrow> ?thesis"
    using commit_listeners [of w] by (auto simp: Commit listener_inv_def)
next
  case (InitResolved k s) then show "listener_inv w \<Longrightarrow> ?thesis"
    by (cases "pending w k") (auto simp: listener_inv_def)
next
  case (InitRejected k err) then show "listener_inv w \<Longrightarrow> ?thesis"
    by (cases "pending w k") (auto simp: listener_inv_def)
next
  case (StateChange s v) then show "listener_inv w \<Longrightarrow> ?thesis"
    by (auto simp: listener_inv_def)
next
  case Unmount then show "listener_inv w \<Longrightarrow> ?thesis"
    by (simp add: listener_inv_def)
qed

lemma listener_inv_reachable: "listener_inv (exec evs (initial_world g))"
  by (rule exec_invariant [OF listener_inv_initial listener_inv_step])


lemma stateChange_last_write_wins:
  "\<not> unmounted w \<Longrightarrow> listeners (sdks w s) \<noteq> [] \<Longrightarrow> vs \<noteq> [] \<Longrightarrow>
     state (hooks (exec (map (StateChange s) vs) w)) = last vs"
proof (induction vs arbitrary: w)
  case Nil
  then show ?case by simp
next
  case (Cons v vs)
  show ?case
  proof (cases "vs = []")
    case True
    with Cons.prems show ?thesis by simp
  next
    case False
    have "state (hooks (exec (map (StateChange s) vs) (step (StateChange s v) w))) = last vs"
      using Cons.prems False by (intro Cons.IH) simp_all
    with False show ?thesis by simp
  qed
qed

lemma run_cleanup_rendered:
  "run_cleanup (w\<lparr>rendered := x\<rparr>) = (run_cleanup w)\<lparr>rendered := x\<rparr>"
  by (simp add: run_cleanup_def unsubscribe_def split: cleanup.splits option.splits)

subsection \<open>The error cell while no run fails\<close>

lemma commit_error:
  "error (hooks (commit w)) = error (hooks w) \<or> error (hooks (commit w)) = None"
  by (auto simp: commit_def Let_def init_effect_def browser_effect_def setter_defs split: option.splits)

lemma step_error_None:
  assumes "error (hooks w) = None" and "\<not> run_fails e w"
  shows "error (hooks (step e w)) = None"
proof (cases e)
  case (Render p) with assms show ?thesis by simp
next
  case Commit with assms commit_error [of w] show ?thesis by auto
next
  case (InitResolved k s) with assms show ?thesis
    by (cases "pending w k")
       (auto simp: initializeSDK_resolved_error completes_def split: option.splits)
next
  case (InitRejected k err) with assms show ?thesis by simp
next
  case (StateChange s v) with assms show ?thesis by simp
next
  case Unmount with assms show ?thesis by simp
qed

lemma exec_error_None:
  "error (hooks w) = None \<Longrightarrow> no_run_fails evs w \<Longrightarrow> error (hooks (exec evs w)) = None"
  by (induction evs arbitrary: w) (simp_all add: step_error_None)

subsection \<open>How long a listener stays attached\<close>

lemma run_cleanup_keeps_listener:
  "l \<in> set (listeners (sdks w s)) \<or> CallUnsubscribe s l \<in> set (calls w) \<Longrightarrow>
     l \<in> set (listeners (sdks (run_cleanup w) s)) \<or> CallUnsubscribe s l \<in> set (calls (run_cleanup w))"
  by (auto simp: run_cleanup_def unsubscribe_def split: cleanup.splits option.splits)

lemma commit_keeps_listener:
  assumes "l \<in> set (listeners (sdks w s)) \<or> CallUnsubscribe s l \<in> set (calls w)"
  shows "l \<in> set (listeners (sdks (commit w) s)) \<or> CallUnsubscribe s l \<in> set (calls (commit w))"
proof -
  have a: "l \<in> set (listeners (sdks (run_cleanup w) s)) \<or> CallUnsubscribe s l \<in> set (calls (run_cleanup w))"
    using assms by (rule run_cleanup_keeps_listener)
  have b: "l \<in> set (listeners (sdks (run_cleanup ((browser_effect w)\<lparr>mountEffectRan := True\<rparr>)) s))
           \<or> CallUnsubscribe s l \<in> set (calls (run_cleanup ((browser_effect w)\<lparr>mountEffectRan := True\<rparr>)))"
    using assms by (intro run_cleanup_keeps_listener) (simp add: browser_effect_def setter_defs)
  from assms a b show ?thesis
    by (auto simp: commit_def Let_def init_effect_def browser_effect_def setter_defs split: option.splits)
qed

lemma step_keeps_listener:
  assumes "l \<in> set (listeners (sdks w s)) \<or> CallUnsubscribe s l \<in> set (calls w)"
  shows "l \<in> set (listeners (sdks (step e w) s)) \<or> CallUnsubscribe s l \<in> set (calls (step e w))"
proof (cases e)
  case (Render p) with assms show ?thesis by auto
next
  case Commit with commit_keeps_listener [OF assms] show ?thesis by simp
next
  case (InitResolved k s') with assms show ?thesis
    by (cases "pending w k") (auto simp: initializeSDK_resolved_alt split: option.splits)
next
  case (InitRejected k err) with assms show ?thesis
    by (cases "pending w k") auto
next
  case (StateChange s' v) with assms show ?thesis by auto
next
  case Unmount with run_cleanup_keeps_listener [OF assms] assms show ?thesis by auto
qed

lemma exec_keeps_listener:
  "l \<in> set (listeners (sdks w s)) \<or> CallUnsubscribe s l \<in> set (calls w) \<Longrightarrow>
     l \<in> set (listeners (sdks (exec evs w) s)) \<or> CallUnsubscribe s l \<in> set (calls (exec evs w))"
  by (induction evs arbitrary: w) (simp_all add: step_keeps_listener)

section \<open>Properties\<close>

text \<open>
  C9. Calling \<open>useYourGPT\<close> with a null context (outside a mounted provider) throws the
  \<open>YourGPTError\<close> with the message "useYourGPT must be used within a YourGPTProvider";
  with a provider's context value it returns that value.
\<close>

theorem useYourGPT_outside_or_inside:
  "useYourGPT None = Inl (YourGPTError ''useYourGPT must be used within a YourGPTProvider'')
   \<and> useYourGPT (Some c) = Inr c"
  by (simp add: useYourGPT_def)

text \<open>
  C8. Registering a handler under a name and then unregistering the same name leaves the
  registry empty again; unregistering once more changes nothing.
\<close>

theorem register_unregister_round_trip:
  "unregisterAction name (registerAction name handler empty_registry) = empty_registry
   \<and> unregisterAction name (unregisterAction name (registerAction name handler empty_registry))
       = empty_registry"
  by (simp add: unregisterAction_def registerAction_def empty_registry_def)

text \<open>
  C1, with its side conditions. Take a commit on a mounted provider that runs the second
  effect in a render with \<open>isBrowser\<close> true (\<open>w1\<close>), let the \<open>YourGPT.init\<close> call of this run
  resolve while the provider is still mounted, and let \<open>onInitialized\<close> be absent or return
  without throwing. Once the run has begun \<open>isLoading\<close> is true and \<open>error\<close> is null, with
  \<open>isInitialized\<close> as before the run. Whatever happens while the promise is pending (\<open>evs\<close>),
  the completion (\<open>w2\<close>) sets \<open>isLoading\<close> false and \<open>isInitialized\<close> true and leaves
  \<open>error\<close> as it finds it; when no run fails in the meantime, \<open>error\<close> is null at the end.
\<close>

theorem successful_initialization:
  assumes "\<not> unmounted w" and "rendered w = Some c" and "isBrowser_r c"
    and "effectDeps w \<noteq> Some (deps_of c)"
    and "w1 = step Commit w"
    and "w' = exec evs w1" and "\<not> unmounted w'" and "pending w' (nextRun w) = Some (props c)"
    and "completes (onInitialized (props c)) s"
    and "w2 = step (InitResolved (nextRun w) s) w'"
  shows "isLoading (contextValue w1) \<and> error (contextValue w1) = None
         \<and> isInitialized (contextValue w1) = isInitialized (contextValue w)
         \<and> pending w1 (nextRun w) = Some (props c)
         \<and> \<not> isLoading (contextValue w2) \<and> isInitialized (contextValue w2)
         \<and> (\<not> isInitialized (contextValue w) \<longrightarrow>
               \<not> isInitialized (contextValue w1) \<and> isInitialized (contextValue w2))
         \<and> error (contextValue w2) = error (contextValue w')
         \<and> (no_run_fails evs w1 \<longrightarrow> error (contextValue w2) = None)"
proof -
  have start: "isLoading (hooks w1) \<and> error (hooks w1) = None
               \<and> isInitialized (hooks w1) = isInitialized (hooks w)
               \<and> pending w1 (nextRun w) = Some (props c)"
    using assms(1-5) by (simp add: commit_def init_effect_def browser_effect_def setIsBrowser_def)
  have err: "error (hooks w2) = error (hooks w')"
    using assms(7-10) by (simp add: initializeSDK_resolved_error completes_def split: option.splits)
  have finish: "\<not> isLoading (hooks w2) \<and> isInitialized (hooks w2)"
    using assms(7,8,10) by simp
  have quiet: "error (hooks w') = None" if "no_run_fails evs w1"
    using start that assms(6) by (simp add: exec_error_None)
  from start err finish quiet show ?thesis by simp
qed

text \<open>
  A fresh mount, a state change of the widget while the call is pending, then the call
  resolves: \<open>isLoading\<close> was true and ends false, \<open>isInitialized\<close> was false and ends true,
  \<open>error\<close> is null.
\<close>

theorem successful_initialization_witness:
  "\<not> unmounted (exec [Render sample_props, Commit, Render sample_props] (initial_world sample_widgets))
   \<and> completes (onInitialized sample_props) 7
   \<and> no_run_fails [StateChange 7 open_state] (exec (mount sample_props) (initial_world sample_widgets))
   \<and> isLoading (contextValue (exec (mount sample_props) (initial_world sample_widgets)))
   \<and> \<not> isInitialized (contextValue (exec (mount sample_props) (initial_world sample_widgets)))
   \<and> \<not> isLoading (contextValue (exec (mount sample_props @ [StateChange 7 open_state, InitResolved 0 7])
         (initial_world sample_widgets)))
   \<and> isInitialized (contextValue (exec (mount sample_props @ [StateChange 7 open_state, InitResolved 0 7])
         (initial_world sample_widgets)))
   \<and> error (contextValue (exec (mount sample_props @ [StateChange 7 open_state, InitResolved 0 7])
         (initial_world sample_widgets))) = None"
proof -
  let ?w = "exec [Render sample_props, Commit, Render sample_props] (initial_world sample_widgets)"
  let ?c = "\<lparr>props = sample_props, isBrowser_r = True, sdk_r = None\<rparr>"
  let ?w' = "exec [StateChange 7 open_state] (step Commit ?w)"
  have h1: "\<not> unmounted ?w" by (simp add: eval_defs)
  have h2: "rendered ?w = Some ?c" by (simp add: eval_defs)
  have h3: "isBrowser_r ?c" by simp
  have h4: "effectDeps ?w \<noteq> Some (deps_of ?c)" by (simp add: eval_defs)
  have h5: "\<not> unmounted ?w'" by (simp add: eval_defs)
  have h6: "pending ?w' (nextRun ?w) = Some (props ?c)" by (simp add: eval_defs)
  have h7: "completes (onInitialized (props ?c)) (7::nat)" by (simp add: eval_defs)
  have h8: "no_run_fails [StateChange 7 open_state] (step Commit ?w)" by simp
  from successful_initialization [OF h1 h2 h3 h4 refl refl h5 h6 h7 refl] h1 h7 h8
  show ?thesis by (simp add: eval_defs)
qed

text \<open>
  C1 without the side conditions fails, three times. First: \<open>YourGPT.init\<close> resolves, yet
  \<open>onInitialized\<close>, called inside the same \<open>try\<close> block, throws, and the \<open>catch\<close> block
  leaves a non-null \<open>error\<close> on an initialized, mounted provider. Second: the configuration
  changes while the first call is pending, the second call rejects, then the first resolves
  with a callback that returns; the successful run ends with the \<open>error\<close> of the other.
  Third: a run started by a change of configuration after a successful initialization
  begins with \<open>isInitialized\<close> already true, so that its success is no transition from
  false.
\<close>

theorem successful_run_counterexample:
  "pending (exec (mount throwing_props) (initial_world sample_widgets)) 0 = Some throwing_props
   \<and> \<not> unmounted (exec (mount throwing_props @ [InitResolved 0 7]) (initial_world sample_widgets))
   \<and> isInitialized (contextValue (exec (mount throwing_props @ [InitResolved 0 7]) (initial_world sample_widgets)))
   \<and> error (contextValue (exec (mount throwing_props @ [InitResolved 0 7]) (initial_world sample_widgets)))
       = Some (YourGPTError ''boom'')
   \<and> pending (exec [Render changed_props, Commit, InitRejected 1 (ThrownOther ''offline'')] pending_world) 0
       = Some sample_props
   \<and> completes (onInitialized sample_props) 7
   \<and> \<not> unmounted
        (exec [Render changed_props, Commit, InitRejected 1 (ThrownOther ''offline''), InitResolved 0 7]
           pending_world)
   \<and> error (contextValue
        (exec [Render changed_props, Commit, InitRejected 1 (ThrownOther ''offline''), InitResolved 0 7]
           pending_world))
       = Some (YourGPTError ''offline'')
   \<and> isInitialized (contextValue ready_world)
   \<and> pending (exec [Render changed_props, Commit] ready_world) 1 = Some changed_props
   \<and> isInitialized (contextValue (exec [Render changed_props, Commit] ready_world))
   \<and> isInitialized (contextValue (exec [Render changed_props, Commit, InitResolved 1 7] ready_world))"
  by (simp add: eval_defs)

text \<open>
  C2, for the values line 83 can normalize. When the \<open>YourGPT.init\<close> call of a run on a
  mounted provider throws a \<open>YourGPTError\<close> or a value that \<open>String\<close> coerces, the context
  ends with \<open>isLoading\<close> false, \<open>error\<close> the thrown value normalized to a \<open>YourGPTError\<close>
  (itself if it is one, otherwise built from its string coercion), hence non-null, and
  \<open>isInitialized\<close> as it was: still false when it was false; \<open>onError\<close>, when provided, is
  called with the normalized error, and nothing else is called.
\<close>

theorem failing_initialization:
  assumes "\<not> unmounted w" and "pending w k = Some p"
    and "toYourGPTError err = Some sdkError"
    and "w' = step (InitRejected k err) w"
  shows "\<not> isLoading (contextValue w')
         \<and> error (contextValue w') = Some sdkError \<and> error (contextValue w') \<noteq> None
         \<and> isInitialized (contextValue w') = isInitialized (contextValue w)
         \<and> (\<not> isInitialized (contextValue w) \<longrightarrow> \<not> isInitialized (contextValue w'))
         \<and> (case err of ThrownYourGPTError e \<Rightarrow> sdkError = e
                       | ThrownOther str \<Rightarrow> sdkError = YourGPTError str
                       | ThrownUncoercible \<Rightarrow> False)
         \<and> (case onError p of None \<Rightarrow> calls w' = calls w
                             | Some cb \<Rightarrow> calls w' = calls w @ [CallOnError (ref cb) sdkError])"
  using assms by (auto split: thrown.splits option.splits)

theorem failing_initialization_witness:
  "\<not> unmounted pending_world \<and> pending pending_world 0 = Some sample_props
   \<and> toYourGPTError (ThrownOther ''offline'') = Some (YourGPTError ''offline'')
   \<and> \<not> isInitialized (contextValue pending_world)
   \<and> \<not> isLoading (contextValue (step (InitRejected 0 (ThrownOther ''offline'')) pending_world))
   \<and> error (contextValue (step (InitRejected 0 (ThrownOther ''offline'')) pending_world))
        = Some (YourGPTError ''offline'')
   \<and> \<not> isInitialized (contextValue (step (InitRejected 0 (ThrownOther ''offline'')) pending_world))
   \<and> calls (step (InitRejected 0 (ThrownOther ''offline'')) pending_world)
        = calls pending_world @ [CallOnError 2 (YourGPTError ''offline'')]"
proof -
  have h1: "\<not> unmounted pending_world" by (simp add: eval_defs)
  have h2: "pending pending_world 0 = Some sample_props" by (simp add: eval_defs)
  have h3: "toYourGPTError (ThrownOther ''offline'') = Some (YourGPTError ''offline'')" by simp
  have h4: "\<not> isInitialized (contextValue pending_world)" by (simp add: eval_defs)
  have h5: "onError sample_props = Some (Callback 2 returning)" by (simp add: sample_props_def)
  from failing_initialization [OF h1 h2 h3 refl] h1 h2 h3 h4 h5
  show ?thesis by (simp add: eval_defs)
qed

text \<open>
  C2 for every thrown value fails, twice. First: the call rejects with a value \<open>String\<close>
  cannot coerce; line 83 throws inside the \<open>catch\<close> block, \<open>setError\<close> and \<open>onError\<close> are
  skipped, and the mounted provider ends with \<open>error\<close> null although \<open>onError\<close> was
  provided. Second: after a successful initialization the configuration changes and the
  new call rejects; \<open>isInitialized\<close> is not false at the end, it stays true.
\<close>

theorem failing_run_counterexample:
  "pending pending_world 0 = Some sample_props
   \<and> \<not> unmounted (step (InitRejected 0 ThrownUncoercible) pending_world)
   \<and> error (contextValue (step (InitRejected 0 ThrownUncoercible) pending_world)) = None
   \<and> calls (step (InitRejected 0 ThrownUncoercible) pending_world) = [CallInit 1]
   \<and> pending (exec [Render changed_props, Commit] ready_world) 1 = Some changed_props
   \<and> \<not> unmounted (exec [Render changed_props, Commit, InitRejected 1 (ThrownOther ''offline'')] ready_world)
   \<and> error (contextValue
        (exec [Render changed_props, Commit, InitRejected 1 (ThrownOther ''offline'')] ready_world))
       = Some (YourGPTError ''offline'')
   \<and> isInitialized (contextValue
        (exec [Render changed_props, Commit, InitRejected 1 (ThrownOther ''offline'')] ready_world))"
  by (simp add: eval_defs)

text \<open>
  C3, while the subscription lasts. Let \<open>YourGPT.init\<close> resolve with an instance for a
  mounted provider, and let anything happen afterwards (\<open>evs\<close>). The listener this
  initialization attached is then still attached to the instance, unless its stored
  unsubscribe function has been called. As long as the provider is mounted and that
  function has not been called, a state change the widget emits on the instance changes
  nothing of the context but \<open>state\<close>, which becomes exactly the payload. In any world a
  state change is stored verbatim when the provider is mounted and a listener is attached,
  and not at all otherwise; and of the payloads emitted in a row right after the
  initialization the last one is the exposed state.
\<close>

theorem stateChange_verbatim:
  assumes "\<not> unmounted w" and "pending w k = Some p"
    and "w1 = exec evs (step (InitResolved k s) w)"
  shows "(nextListener w \<in> set (listeners (sdks w1 s))
            \<or> CallUnsubscribe s (nextListener w) \<in> set (calls w1))
         \<and> (\<not> unmounted w1 \<and> CallUnsubscribe s (nextListener w) \<notin> set (calls w1) \<longrightarrow>
               contextValue (step (StateChange s v) w1) = (contextValue w1)\<lparr>state := v\<rparr>
               \<and> state (contextValue (step (StateChange s v) w1)) = v)
         \<and> contextValue (step (StateChange s v) w0)
             = (if unmounted w0 \<or> listeners (sdks w0 s) = [] then contextValue w0
                else (contextValue w0)\<lparr>state := v\<rparr>)
         \<and> (vs \<noteq> [] \<longrightarrow>
               state (contextValue (exec (map (StateChange s) vs) (step (InitResolved k s) w))) = last vs)"
proof -
  have "nextListener w \<in> set (listeners (sdks (step (InitResolved k s) w) s))"
    using assms(2) by simp
  then have kept: "nextListener w \<in> set (listeners (sdks w1 s))
                   \<or> CallUnsubscribe s (nextListener w) \<in> set (calls w1)"
    unfolding assms(3) by (intro exec_keeps_listener) simp
  have any: "contextValue (step (StateChange s v) w0)
             = (if unmounted w0 \<or> listeners (sdks w0 s) = [] then contextValue w0
                else (contextValue w0)\<lparr>state := v\<rparr>)" for w0
    by (simp add: contextValue_def)
  have attached: "listeners (sdks w1 s) \<noteq> []" if "CallUnsubscribe s (nextListener w) \<notin> set (calls w1)"
    using kept that by auto
  have row: "state (contextValue (exec (map (StateChange s) vs) (step (InitResolved k s) w))) = last vs"
    if "vs \<noteq> []"
    using assms(1,2) that by (simp add: stateChange_last_write_wins)
  from kept any [of w1] any [of w0] attached row show ?thesis by simp
qed

text \<open>
  After the initialization the provider renders again and two payloads arrive: the last one
  is the exposed state.
\<close>

theorem stateChange_verbatim_witness:
  "\<not> unmounted pending_world \<and> pending pending_world 0 = Some sample_props
   \<and> \<not> unmounted (exec [InitResolved 0 7, Render sample_props, Commit, StateChange 7 defaultState] pending_world)
   \<and> CallUnsubscribe 7 0 \<notin> set (calls
        (exec [InitResolved 0 7, Render sample_props, Commit, StateChange 7 defaultState] pending_world))
   \<and> state (contextValue
        (exec [InitResolved 0 7, Render sample_props, Commit, StateChange 7 defaultState, StateChange 7 open_state]
           pending_world)) = open_state
   \<and> [defaultState, open_state] \<noteq> []
   \<and> state (contextValue (exec (map (StateChange 7) [defaultState, open_state])
        (step (InitResolved 0 7) pending_world))) = open_state"
proof -
  let ?evs = "[Render sample_props, Commit, StateChange 7 defaultState]"
  let ?w1 = "exec ?evs (step (InitResolved 0 7) pending_world)"
  have h1: "\<not> unmounted pending_world" by (simp add: eval_defs)
  have h2: "pending pending_world 0 = Some sample_props" by (simp add: eval_defs)
  have h3: "\<not> unmounted ?w1" by (simp add: eval_defs)
  have h4: "CallUnsubscribe 7 (nextListener pending_world) \<notin> set (calls ?w1)" by (simp add: eval_defs)
  have h5: "nextListener pending_world = 0" by (simp add: eval_defs)
  have h6: "[defaultState, open_state] \<noteq> []" by simp
  from stateChange_verbatim [OF h1 h2 refl, of ?evs 7 open_state ?w1 "[defaultState, open_state]"]
       h1 h2 h3 h4 h5 h6
  show ?thesis by (simp add: eval_defs)
qed

text \<open>
  C3 for every event after a successful initialization fails: after the initialization with
  instance 7 the configuration changes twice; the second cleanup holds the instance and
  calls its stored unsubscribe function, which removes the only listener. The provider is
  still mounted and initialized, the new calls are pending, and the state change the widget
  now emits on the instance is not reflected.
\<close>

theorem stateChange_after_cleanup_counterexample:
  "isInitialized (contextValue ready_world)
   \<and> \<not> unmounted
        (exec [Render changed_props, Commit, Render sample_props, Commit, StateChange 7 open_state] ready_world)
   \<and> isInitialized (contextValue
        (exec [Render changed_props, Commit, Render sample_props, Commit, StateChange 7 open_state] ready_world))
   \<and> listeners (sdks (exec [Render changed_props, Commit, Render sample_props, Commit] ready_world) 7) = []
   \<and> state (contextValue
        (exec [Render changed_props, Commit, Render sample_props, Commit, StateChange 7 open_state] ready_world))
       = sample_widgets 7
   \<and> state (contextValue
        (exec [Render changed_props, Commit, Render sample_props, Commit, StateChange 7 open_state] ready_world))
       \<noteq> open_state"
  by (simp add: eval_defs)

text \<open>
  C4 does not hold of the code. Mount, let \<open>YourGPT.init\<close> resolve with instance 7, render
  again (the state updates), unmount: the cleanup React runs is the one created by the
  render in which the effect ran, where \<open>sdk\<close> was still null, so the stored unsubscribe
  function is never called and the listener stays attached to the instance.
\<close>

theorem unmount_never_unsubscribes:
  "calls (exec (mount sample_props @ [InitResolved 0 7, Render sample_props, Commit, Unmount])
            (initial_world sample_widgets))
     = [CallInit 1, CallOn 7 0, CallOnInitialized 3 7]
   \<and> effectCleanup (exec (mount sample_props @ [InitResolved 0 7, Render sample_props, Commit])
            (initial_world sample_widgets)) = Cleanup None
   \<and> unsubscribeStateChange (sdks (exec (mount sample_props @ [InitResolved 0 7, Render sample_props, Commit])
            (initial_world sample_widgets)) 7) = Some 0
   \<and> listeners (sdks (exec (mount sample_props @ [InitResolved 0 7, Render sample_props, Commit, Unmount])
            (initial_world sample_widgets)) 7) = [0]
   \<and> unmounted (exec (mount sample_props @ [InitResolved 0 7, Render sample_props, Commit, Unmount])
            (initial_world sample_widgets))"
  by (simp add: eval_defs)

text \<open>
  C5. In an execution in which \<open>isBrowser\<close> is still false at the end (it is never reset, so
  it was false throughout), the provider has not called \<open>YourGPT.init\<close>; and the second
  effect, run in a render where \<open>isBrowser\<close> is false, calls nothing and starts nothing.
\<close>

theorem no_init_outside_browser:
  "(\<not> isBrowser (hooks (exec evs (initial_world g))) \<longrightarrow>
      CallInit cfg \<notin> set (calls (exec evs (initial_world g))))
   \<and> (\<not> isBrowser_r c \<longrightarrow>
        calls (init_effect c w) = calls w \<and> pending (init_effect c w) = pending w)"
  using browser_inv_reachable [of evs g] by (auto simp: browser_inv_def init_effect_def)

text \<open>A server render (no commit, hence no effect) and the first commit in a browser.\<close>

theorem no_init_outside_browser_witness:
  "\<not> isBrowser (hooks (exec [Render sample_props, StateChange 7 open_state, Render changed_props]
        (initial_world sample_widgets)))
   \<and> CallInit 1 \<notin> set (calls (exec [Render sample_props, StateChange 7 open_state, Render changed_props]
        (initial_world sample_widgets)))
   \<and> \<not> isBrowser_r \<lparr>props = sample_props, isBrowser_r = False, sdk_r = None\<rparr>
   \<and> calls (init_effect \<lparr>props = sample_props, isBrowser_r = False, sdk_r = None\<rparr>
        (initial_world sample_widgets)) = []"
proof -
  have h1: "\<not> isBrowser (hooks (exec [Render sample_props, StateChange 7 open_state, Render changed_props]
        (initial_world sample_widgets)))" by (simp add: eval_defs)
  have h2: "\<not> isBrowser_r \<lparr>props = sample_props, isBrowser_r = False, sdk_r = None\<rparr>" by simp
  have h3: "calls (initial_world sample_widgets) = []" by (simp add: initial_world_def)
  from no_init_outside_browser
         [of "[Render sample_props, StateChange 7 open_state, Render changed_props]" sample_widgets 1
             "\<lparr>props = sample_props, isBrowser_r = False, sdk_r = None\<rparr>" "initial_world sample_widgets"]
       h1 h2 h3
  show ?thesis by simp
qed




text \<open>
  C7. In a reachable world where the provider is mounted and its second effect last ran
  with configuration \<open>c\<close>, a render with a different configuration reference followed by its
  commit runs the effect again: first the cleanup of the previous run (the instances and
  the calls are those after \<open>run_cleanup\<close>), then a new \<open>initializeSDK\<close>, which sets
  \<open>isLoading\<close>, clears \<open>error\<close> and calls \<open>YourGPT.init\<close> with the new configuration.
\<close>

theorem config_change_reinitializes:
  assumes "w = exec evs (initial_world g)" and "\<not> unmounted w"
    and "effectDeps w = Some (c, e, i, b)" and "config p \<noteq> c"
    and "w' = step Commit (step (Render p) w)"
  shows "sdks w' = sdks (run_cleanup w)
         \<and> calls w' = calls (run_cleanup w) @ [CallInit (config p)]
         \<and> pending w' (nextRun w) = Some p
         \<and> isLoading (contextValue w') \<and> error (contextValue w') = None
         \<and> effectCleanup w' = Cleanup (sdk (hooks w))"
proof -
  have "browser_inv w"
    using assms(1) by (simp add: browser_inv_reachable)
  then have ran: "mountEffectRan w" and browser: "isBrowser (hooks w)"
    using assms(3) by (auto simp: browser_inv_def)
  show ?thesis
    using assms(2-5) ran browser
    by (simp add: commit_def deps_of_def init_effect_def run_cleanup_rendered)
qed

text \<open>
  The second change of configuration after a successful initialization: the cleanup of the
  previous run holds instance 7 and calls its stored unsubscribe function.
\<close>

theorem config_change_reinitializes_witness:
  "\<not> unmounted (exec [Render changed_props, Commit] ready_world)
   \<and> effectDeps (exec [Render changed_props, Commit] ready_world) = Some (4, Some 2, Some 3, True)
   \<and> config sample_props \<noteq> 4
   \<and> calls (step Commit (step (Render sample_props) (exec [Render changed_props, Commit] ready_world)))
        = [CallInit 1, CallOn 7 0, CallOnInitialized 3 7, CallInit 4, CallUnsubscribe 7 0, CallInit 1]
   \<and> isLoading (contextValue
        (step Commit (step (Render sample_props) (exec [Render changed_props, Commit] ready_world))))
   \<and> error (contextValue
        (step Commit (step (Render sample_props) (exec [Render changed_props, Commit] ready_world)))) = None"
proof -
  let ?w = "exec [Render changed_props, Commit] ready_world"
  have r: "?w = exec (mount sample_props @ [InitResolved 0 7, Render changed_props, Commit])
                  (initial_world sample_widgets)"
    by (simp add: ready_world_def exec_append)
  have h1: "\<not> unmounted ?w" by (simp add: eval_defs)
  have h2: "effectDeps ?w = Some (4, Some 2, Some 3, True)" by (simp add: eval_defs)
  have h3: "config sample_props \<noteq> 4" by (simp add: eval_defs)
  have h4: "calls (run_cleanup ?w)
              = [CallInit 1, CallOn 7 0, CallOnInitialized 3 7, CallInit 4, CallUnsubscribe 7 0]"
    by (simp add: eval_defs)
  from config_change_reinitializes [OF r h1 h2 h3 refl] h1 h2 h3 h4
  show ?thesis by (simp add: eval_defs)
qed

text \<open>
  C10. In every execution, as long as the provider is not initialized, and in particular
  as long as \<open>isBrowser\<close> is false, the exposed state is the default \<open>WidgetState\<close> (closed,
  visible, not connected, not loaded, no messages, no retries). When \<open>YourGPT.init\<close>
  resolves for a mounted provider, the exposed state is at once what \<open>getState()\<close> of the
  instance returns at that moment.
\<close>

theorem default_state_until_initialized:
  "(\<not> isInitialized (contextValue (exec evs (initial_world g))) \<longrightarrow>
      state (contextValue (exec evs (initial_world g))) = defaultState)
   \<and> (\<not> isBrowser (hooks (exec evs (initial_world g))) \<longrightarrow>
      state (contextValue (exec evs (initial_world g))) = defaultState)
   \<and> defaultState = \<lparr> isOpen = False, isVisible = True, isConnected = False, isLoaded = False,
                       messageCount = 0, connectionRetries = 0 \<rparr>
   \<and> (\<not> unmounted w \<and> pending w k = Some p \<longrightarrow>
        state (contextValue (step (InitResolved k s) w)) = getState s w)"
  using browser_inv_reachable [of evs g] listener_inv_reachable [of evs g]
  by (auto simp: browser_inv_def listener_inv_def defaultState_def getState_def)

theorem default_state_until_initialized_witness:
  "\<not> isInitialized (contextValue (exec [Render sample_props, StateChange 7 open_state] (initial_world sample_widgets)))
   \<and> \<not> isBrowser (hooks (exec [Render sample_props, StateChange 7 open_state] (initial_world sample_widgets)))
   \<and> state (contextValue (exec [Render sample_props, StateChange 7 open_state] (initial_world sample_widgets)))
        = defaultState
   \<and> \<not> unmounted pending_world \<and> pending pending_world 0 = Some sample_props
   \<and> state (contextValue (step (InitResolved 0 7) pending_world)) = sample_widgets 7"
proof -
  let ?evs = "[Render sample_props, StateChange 7 open_state]"
  have h1: "\<not> isInitialized (contextValue (exec ?evs (initial_world sample_widgets)))"
    by (simp add: eval_defs)
  have h2: "\<not> isBrowser (hooks (exec ?evs (initial_world sample_widgets)))" by (simp add: eval_defs)
  have h3: "\<not> unmounted pending_world" by (simp add: eval_defs)
  have h4: "pending pending_world 0 = Some sample_props" by (simp add: eval_defs)
  have h5: "getState 7 pending_world = sample_widgets 7" by (simp add: eval_defs)
  from default_state_until_initialized [of ?evs sample_widgets pending_world 0 sample_props 7]
       h1 h2 h3 h4 h5
  show ?thesis by (simp add: eval_defs)
qed

end
